theory Spec2Isabelle
  imports Complex_Main
begin

section \<open>Image template compositor\<close>

text \<open>
  The compositor is the \<open>onload\<close> handler inside \<open>createImageTemplate\<close>. It works on
  JavaScript numbers; the model takes that arithmetic as exact, over \<open>real\<close>, and keeps
  the two non-finite outcomes of \<open>originalWidth / originalHeight\<close> apart: a division of a
  positive width by a zero height is \<open>Infinity\<close>, and \<open>0 / 0\<close> is \<open>NaN\<close>. The pixel
  dimensions of a decoded image are natural numbers.
\<close>

definition TARGET_WIDTH :: real where
  "TARGET_WIDTH = 1280"

definition TARGET_HEIGHT :: real where
  "TARGET_HEIGHT = 720"

definition TARGET_ASPECT_RATIO :: real where
  "TARGET_ASPECT_RATIO = TARGET_WIDTH / TARGET_HEIGHT"

record image =
  imgWidth :: nat
  imgHeight :: nat

datatype jsRatio = Finite real | PosInfinity | NotANumber

definition originalAspectRatio :: "image \<Rightarrow> jsRatio" where
  "originalAspectRatio img =
     (if imgHeight img \<noteq> 0 then Finite (real (imgWidth img) / real (imgHeight img))
      else if imgWidth img \<noteq> 0 then PosInfinity
      else NotANumber)"

record placement =
  offsetX :: real
  offsetY :: real
  drawWidth :: real
  drawHeight :: real

text \<open>
  The four arguments handed to \<open>ctx.drawImage\<close> after the image itself. \<open>None\<close> stands
  for the \<open>0 \<times> 0\<close> image, where the ratio is \<open>NaN\<close>, the comparison is false and the
  width and its offset are \<open>NaN\<close> as well; with an infinite ratio the first branch is
  taken and \<open>TARGET_WIDTH / Infinity\<close> is 0.
\<close>

definition drawPlacement :: "image \<Rightarrow> placement option" where
  "drawPlacement img =
     (case originalAspectRatio img of
        NotANumber \<Rightarrow> None
      | PosInfinity \<Rightarrow>
          Some \<lparr> offsetX = (TARGET_WIDTH - TARGET_WIDTH) / 2,
                 offsetY = (TARGET_HEIGHT - 0) / 2,
                 drawWidth = TARGET_WIDTH,
                 drawHeight = 0 \<rparr>
      | Finite a \<Rightarrow>
          (let (dw, dh) =
             (if a > TARGET_ASPECT_RATIO
              then (TARGET_WIDTH, TARGET_WIDTH / a)
              else (TARGET_HEIGHT * a, TARGET_HEIGHT))
           in Some \<lparr> offsetX = (TARGET_WIDTH - dw) / 2,
                      offsetY = (TARGET_HEIGHT - dh) / 2,
                      drawWidth = dw,
                      drawHeight = dh \<rparr>))"

text \<open>
  The canvas after \<open>canvas.width = TARGET_WIDTH\<close>, \<open>canvas.height = TARGET_HEIGHT\<close> and
  the single \<open>drawImage\<close> call: its pixel size, the image drawn and where.
\<close>

record canvas =
  canvasWidth :: real
  canvasHeight :: real
  drawnImage :: image
  drawnAt :: "placement option"

definition composeCanvas :: "image \<Rightarrow> canvas" where
  "composeCanvas img =
     \<lparr> canvasWidth = TARGET_WIDTH,
       canvasHeight = TARGET_HEIGHT,
       drawnImage = img,
       drawnAt = drawPlacement img \<rparr>"


section \<open>Errors and strings\<close>

text \<open>
  Every user-facing text of the program is a Russian string literal; each literal is one
  constructor below, in the order in which the source has them. \<open>RuntimeTypeError\<close> is
  the \<open>TypeError\<close> the JavaScript engine raises when a property of \<open>undefined\<close> is
  read or \<open>undefined\<close> is iterated, and \<open>Foreign\<close> carries the text of an error raised
  by the remote SDK or by the browser.
\<close>

datatype message =
    MsgNoCanvasContext
  | MsgBadTemplateDataUrl
  | MsgApiKeyNotProvided
  | MsgNoImageBytes
  | MsgConfigError
  | MsgSourceImageFailedRetry
  | MsgNoImageInResponse
  | MsgPanoramaFailed
  | MsgNoEnhancedImage
  | MsgEnhanceFailed
  | MsgImageProcessingFailed
  | MsgEnterDescription
  | MsgEnterApiKey
  | MsgSourceImageFailed
  | MsgGenerateInputsMissing
  | MsgUnknownError
  | MsgNothingToEnhance
  | MsgBadResultDataUrl
  | MsgUnknownEnhanceError
  | RuntimeTypeError
  | Foreign string

text \<open>
  A thrown or rejected value: an \<open>Error\<close> object with its message, or something that
  is not an \<open>Error\<close> (the \<open>error\<close> event that \<open>img.onerror\<close> passes to \<open>reject\<close>).
\<close>

datatype thrown = ErrorObj message | NonError

datatype 'a promise = Rejects thrown | Resolves 'a

text \<open>\<open>err instanceof Error ? err.message : fallback\<close>\<close>

definition messageOr :: "message \<Rightarrow> thrown \<Rightarrow> message" where
  "messageOr fallback err = (case err of ErrorObj m \<Rightarrow> m | NonError \<Rightarrow> fallback)"

text \<open>JavaScript truthiness of a \<open>string | null | undefined\<close> value.\<close>

definition truthy :: "string option \<Rightarrow> bool" where
  "truthy v = (case v of None \<Rightarrow> False | Some s \<Rightarrow> s \<noteq> [])"

fun startsWith :: "string \<Rightarrow> string \<Rightarrow> bool" where
  "startsWith s [] = True"
| "startsWith [] (c # cs) = False"
| "startsWith (x # xs) (c # cs) = (x = c \<and> startsWith xs cs)"

text \<open>\<open>String.prototype.includes\<close>\<close>

fun includesStr :: "string \<Rightarrow> string \<Rightarrow> bool" where
  "includesStr [] needle = (needle = [])"
| "includesStr (x # xs) needle = (startsWith (x # xs) needle \<or> includesStr xs needle)"

text \<open>
  \<open>error.message.includes('API_KEY') || error.message.includes('permission denied')\<close>.
  The program's own texts are Cyrillic apart from the word \<open>API\<close> and \<open>Data URL\<close>, and
  the engines' texts for a \<open>TypeError\<close> name the property read; none holds a marker.
\<close>

definition hasCredentialMarker :: "message \<Rightarrow> bool" where
  "hasCredentialMarker m =
     (case m of
        Foreign s \<Rightarrow> includesStr s ''API_KEY'' \<or> includesStr s ''permission denied''
      | _ \<Rightarrow> False)"

text \<open>\<open>String.prototype.split\<close> with a one-character separator.\<close>

fun split :: "char \<Rightarrow> string \<Rightarrow> string list" where
  "split sep [] = [[]]"
| "split sep (c # cs) =
     (if c = sep then [] # split sep cs
      else (case split sep cs of
              [] \<Rightarrow> [[c]]
            | p # ps \<Rightarrow> (c # p) # ps))"

text \<open>
  \<open>parts[0].match(/:(.*?);/)?.[1]\<close>: the leftmost colon from which a semicolon is
  reached without crossing a line terminator, and the shortest text between them. Of the
  line terminators, line feed and carriage return exist in this 8-bit character type.
\<close>

definition isLineTerminator :: "char \<Rightarrow> bool" where
  "isLineTerminator c = (c = CHR 0x0A \<or> c = CHR 0x0D)"

fun lazyUntilSemicolon :: "string \<Rightarrow> string option" where
  "lazyUntilSemicolon [] = None"
| "lazyUntilSemicolon (c # cs) =
     (if c = CHR '';'' then Some []
      else if isLineTerminator c then None
      else map_option ((#) c) (lazyUntilSemicolon cs))"

fun matchColonSemicolon :: "string \<Rightarrow> string option" where
  "matchColonSemicolon [] = None"
| "matchColonSemicolon (c # cs) =
     (if c = CHR '':'' then
        (case lazyUntilSemicolon cs of
           Some g \<Rightarrow> Some g
         | None \<Rightarrow> matchColonSemicolon cs)
      else matchColonSemicolon cs)"

section \<open>createImageTemplate\<close>

record imageFile =
  fileName :: string
  fileType :: string
  fileBytes :: string

text \<open>
  What the browser contributes: whether and to what \<open>new Image()\<close> decodes a file
  (\<open>onload\<close> against \<open>onerror\<close>), whether \<open>getContext('2d')\<close> yields a context, what
  \<open>toDataURL('image/png')\<close> returns for a canvas, the object URL of a file, and what
  \<open>fetch\<close> of a data URL followed by \<open>blob()\<close> gives.
\<close>

record browser =
  decodeImage :: "imageFile \<Rightarrow> image option"
  hasContext2d :: bool
  toDataURL :: "canvas \<Rightarrow> string"
  createObjectURL :: "imageFile \<Rightarrow> string"
  fetchBlob :: "string \<Rightarrow> string promise"

text \<open>The \<open>mimeType\<close> of the conversion result is \<open>fcrMimeType\<close> here.\<close>

record FileConversionResult =
  base64 :: string
  fcrMimeType :: string

definition createImageTemplate :: "browser \<Rightarrow> imageFile \<Rightarrow> thrown + FileConversionResult" where
  "createImageTemplate b f =
     (case decodeImage b f of
        None \<Rightarrow> Inl NonError
      | Some img \<Rightarrow>
          if \<not> hasContext2d b then Inl (ErrorObj MsgNoCanvasContext)
          else
            (case split CHR '','' (toDataURL b (composeCanvas img)) of
               [p0, p1] \<Rightarrow> Inr \<lparr> base64 = p1, fcrMimeType = ''image/png'' \<rparr>
             | _ \<Rightarrow> Inl (ErrorObj MsgBadTemplateDataUrl)))"

section \<open>Remote services\<close>

text \<open>
  The responses of the SDK, with the optional members the wrappers test or read through.
  Field names are unique across records here, so \<open>inlineData.mimeType\<close> is
  \<open>dataMimeType\<close>, \<open>part.text\<close> is \<open>partText\<close>, \<open>generatedImages[0].image\<close> is
  \<open>genImage\<close>, and the \<open>text\<close> of a \<open>PanoramaResult\<close> is \<open>resultText\<close>.
\<close>

record InlineData =
  data :: "string option"
  dataMimeType :: "string option"

record Part =
  inlineData :: "InlineData option"
  partText :: "string option"

record Content =
  parts :: "Part list option"

record Candidate =
  content :: "Content option"

record GenerateContentResponse =
  candidates :: "Candidate list option"

record ImageData =
  imageBytes :: "string option"

record GeneratedImage =
  genImage :: "ImageData option"

record GenerateImagesResponse =
  generatedImages :: "GeneratedImage list option"

text \<open>
  The text part of a \<open>generateContent\<close> request: the fixed outpainting instruction
  followed by the user's prompt, or the fixed enhancement instruction.
\<close>

datatype instruction = OutpaintInstruction string | EnhanceInstruction

text \<open>
  A request that reaches the network, with its credential. The service is a pair of
  functions giving the outcome of each request; a wrapper returns its own result together
  with the requests it has sent.
\<close>

datatype request =
    GenerateImagesRequest string string
  | GenerateContentRequest string string string instruction

record remote =
  generateImages :: "request \<Rightarrow> GenerateImagesResponse promise"
  generateContent :: "request \<Rightarrow> GenerateContentResponse promise"

record PanoramaResult =
  imageUrl :: "string option"
  resultText :: "string option"

text \<open>
  The \<open>catch\<close> clause shared by the three wrappers: a configuration error when the
  caught value is an \<open>Error\<close> whose message holds a credential marker, the wrapper's own
  generic failure otherwise.
\<close>

definition rethrow :: "message \<Rightarrow> thrown \<Rightarrow> thrown" where
  "rethrow generic err =
     (case err of
        ErrorObj m \<Rightarrow> if hasCredentialMarker m then ErrorObj MsgConfigError else ErrorObj generic
      | NonError \<Rightarrow> ErrorObj generic)"

definition generateSourceImage ::
  "remote \<Rightarrow> string \<Rightarrow> string \<Rightarrow> (thrown + string) \<times> request list" where
  "generateSourceImage r prompt apiKey =
     (if apiKey = [] then (Inl (ErrorObj MsgApiKeyNotProvided), [])
      else
        let req = GenerateImagesRequest apiKey prompt;
            body =
              (case generateImages r req of
                 Rejects e \<Rightarrow> Inl e
               | Resolves response \<Rightarrow>
                   (case generatedImages response of
                      None \<Rightarrow> Inl (ErrorObj MsgNoImageBytes)
                    | Some [] \<Rightarrow> Inl (ErrorObj MsgNoImageBytes)
                    | Some (g # _) \<Rightarrow>
                        (case genImage g of
                           None \<Rightarrow> Inl (ErrorObj RuntimeTypeError)
                         | Some im \<Rightarrow>
                             (case imageBytes im of
                                None \<Rightarrow> Inl (ErrorObj MsgNoImageBytes)
                              | Some bytes \<Rightarrow>
                                  if bytes = [] then Inl (ErrorObj MsgNoImageBytes)
                                  else Inr bytes))))
        in (case body of
              Inl e \<Rightarrow> Inl (rethrow MsgSourceImageFailedRetry e)
            | Inr bytes \<Rightarrow> Inr bytes,
            [req]))"

text \<open>
  The loop over \<open>response.candidates[0].content.parts\<close>, identical in
  \<open>generatePanorama\<close> and \<open>enhanceImage\<close>. An absent \<open>mimeType\<close> is interpolated
  into the template literal as the text \<open>undefined\<close>.
\<close>

definition partImageUrl :: "Part \<Rightarrow> string option" where
  "partImageUrl p =
     (case inlineData p of
        None \<Rightarrow> None
      | Some d \<Rightarrow>
          (case data d of
             None \<Rightarrow> None
           | Some base64Bytes \<Rightarrow>
               if base64Bytes = [] then None
               else Some (''data:''
                          @ (case dataMimeType d of None \<Rightarrow> ''undefined'' | Some m \<Rightarrow> m)
                          @ '';base64,'' @ base64Bytes)))"

fun scanParts :: "Part list \<Rightarrow> string option \<times> string option \<Rightarrow> string option \<times> string option" where
  "scanParts [] acc = acc"
| "scanParts (p # ps) (url, txt) =
     scanParts ps
       (case partImageUrl p of
          Some u \<Rightarrow> (Some u, txt)
        | None \<Rightarrow> if truthy (partText p) then (url, partText p) else (url, txt))"

text \<open>
  The body of the \<open>try\<close> block after the awaited call, up to the \<open>return\<close>; the message
  is the one the wrapper throws when no image was found.
\<close>

definition readResponse :: "message \<Rightarrow> GenerateContentResponse \<Rightarrow> thrown + PanoramaResult" where
  "readResponse noImage response =
     (case (case candidates response of
              None \<Rightarrow> Inr (None, None)
            | Some [] \<Rightarrow> Inr (None, None)
            | Some (c # _) \<Rightarrow>
                (case content c of
                   None \<Rightarrow> Inl (ErrorObj RuntimeTypeError)
                 | Some ct \<Rightarrow>
                     (case parts ct of
                        None \<Rightarrow> Inl (ErrorObj RuntimeTypeError)
                      | Some ps \<Rightarrow> Inr (scanParts ps (None, None))))) of
        Inl e \<Rightarrow> Inl e
      | Inr (url, txt) \<Rightarrow>
          if \<not> truthy url then Inl (ErrorObj noImage)
          else Inr \<lparr> imageUrl = url, resultText = txt \<rparr>)"

definition generatePanorama ::
  "remote \<Rightarrow> string \<Rightarrow> string \<Rightarrow> string \<Rightarrow> string \<Rightarrow> (thrown + PanoramaResult) \<times> request list" where
  "generatePanorama r base64ImageData mime userPrompt apiKey =
     (if apiKey = [] then (Inl (ErrorObj MsgApiKeyNotProvided), [])
      else
        let req = GenerateContentRequest apiKey base64ImageData mime (OutpaintInstruction userPrompt);
            body =
              (case generateContent r req of
                 Rejects e \<Rightarrow> Inl e
               | Resolves response \<Rightarrow> readResponse MsgNoImageInResponse response)
        in (case body of
              Inl e \<Rightarrow> Inl (rethrow MsgPanoramaFailed e)
            | Inr res \<Rightarrow> Inr res,
            [req]))"

definition enhanceImage ::
  "remote \<Rightarrow> string \<Rightarrow> string \<Rightarrow> string \<Rightarrow> (thrown + PanoramaResult) \<times> request list" where
  "enhanceImage r base64ImageData mime apiKey =
     (if apiKey = [] then (Inl (ErrorObj MsgApiKeyNotProvided), [])
      else
        let req = GenerateContentRequest apiKey base64ImageData mime EnhanceInstruction;
            body =
              (case generateContent r req of
                 Rejects e \<Rightarrow> Inl e
               | Resolves response \<Rightarrow> readResponse MsgNoEnhancedImage response)
        in (case body of
              Inl e \<Rightarrow> Inl (rethrow MsgEnhanceFailed e)
            | Inr res \<Rightarrow> Inr res,
            [req]))"

section \<open>Generation session controller\<close>

text \<open>
  A history entry; its \<open>id\<close> and \<open>prompt\<close> are \<open>itemId\<close> and \<open>itemPrompt\<close> here, the
  names \<open>id\<close> and \<open>prompt\<close> being taken by the identity function and by the
  component's own prompt.
\<close>

record HistoryItem =
  itemId :: int
  itemPrompt :: string
  templateImageBase64 :: string
  templateImageMimeType :: string
  generatedImageUrl :: string

datatype sourceModeT = Upload | Generate

text \<open>
  The status line: empty, the three progress texts and the success text. The two
  middle texts are set by timers that a generation starts.
\<close>

datatype status =
  StatusEmpty | StatusInitialising | StatusAnalysing | StatusExtending | StatusDone

text \<open>The state hooks of the \<open>App\<close> component.\<close>

record app =
  apiKey :: string
  base64Image :: "string option"
  imagePreview :: "string option"
  mimeType :: "string option"
  prompt :: string
  generatedImage :: "string option"
  generatedText :: "string option"
  isLoading :: bool
  isEnhancing :: bool
  error :: "message option"
  statusMessage :: status
  history :: "HistoryItem list"
  sourceMode :: sourceModeT
  initialPrompt :: string
  isGeneratingInitial :: bool

text \<open>
  What lies outside the component: the item stored in \<open>localStorage\<close> under
  \<open>HISTORY_KEY\<close> (the list itself stands for its JSON text), the requests sent to the
  remote service so far, and the timers set with \<open>setTimeout\<close>, each with its delay in
  milliseconds and the status text it will set. A handler's result is the state when the
  handler finishes; a timer fires whenever its delay has passed, also after a failure,
  and is never cancelled.
\<close>

record world =
  storedHistory :: "HistoryItem list option"
  sent :: "request list"
  timers :: "(nat \<times> status) list"

definition timerFires :: "status \<Rightarrow> app \<Rightarrow> app" where
  "timerFires st a = a\<lparr>statusMessage := st\<rparr>"

text \<open>
  What one run of a handler meets: the remote service, the browser, the value of
  \<open>Date.now()\<close>, and whether \<open>localStorage.setItem\<close> throws (a full store raises a
  quota error).
\<close>

record env =
  service :: remote
  page :: browser
  now :: int
  setItemThrows :: "thrown option"

text \<open>
  A handler reads the state of the render in which it was created (\<open>a\<close>) and queues
  updates; the result is the state once all updates are applied. \<open>updateHistory\<close> sets
  the list first and writes the store second, so a throwing write leaves the new list in
  the component.
\<close>

definition updateHistory ::
  "env \<Rightarrow> HistoryItem list \<Rightarrow> app \<times> world \<Rightarrow> thrown option \<times> app \<times> world" where
  "updateHistory e newHistory s =
     (case s of (a, w) \<Rightarrow>
        (case setItemThrows e of
           None \<Rightarrow> (None, a\<lparr>history := newHistory\<rparr>, w\<lparr>storedHistory := Some newHistory\<rparr>)
         | Some err \<Rightarrow> (Some err, a\<lparr>history := newHistory\<rparr>, w)))"

definition handleImageUpload :: "env \<Rightarrow> imageFile \<Rightarrow> app \<Rightarrow> app" where
  "handleImageUpload e f a =
     (let a1 = a\<lparr>error := None, generatedImage := None, generatedText := None,
                 imagePreview := Some (createObjectURL (page e) f)\<rparr>
      in case createImageTemplate (page e) f of
           Inr res \<Rightarrow> a1\<lparr>base64Image := Some (base64 res), mimeType := Some (fcrMimeType res)\<rparr>
         | Inl err \<Rightarrow> a1\<lparr>error := Some (messageOr MsgImageProcessingFailed err)\<rparr>)"

definition handleGenerateInitial :: "env \<Rightarrow> app \<times> world \<Rightarrow> app \<times> world" where
  "handleGenerateInitial e s =
     (case s of (a, w) \<Rightarrow>
        if initialPrompt a = [] then (a\<lparr>error := Some MsgEnterDescription\<rparr>, w)
        else if apiKey a = [] then (a\<lparr>error := Some MsgEnterApiKey\<rparr>, w)
        else
          let a1 = a\<lparr>isGeneratingInitial := True, error := None, generatedImage := None,
                     generatedText := None, imagePreview := None, base64Image := None\<rparr>;
              (res, reqs) = generateSourceImage (service e) (initialPrompt a) (apiKey a);
              w1 = w\<lparr>sent := sent w @ reqs\<rparr>;
              caught = (\<lambda>err. (a1\<lparr>error := Some (messageOr MsgSourceImageFailed err),
                                    isGeneratingInitial := False\<rparr>, w1))
          in (case res of
                Inl err \<Rightarrow> caught err
              | Inr generatedBase64 \<Rightarrow>
                  (case fetchBlob (page e) (''data:image/png;base64,'' @ generatedBase64) of
                     Rejects err \<Rightarrow> caught err
                   | Resolves blob \<Rightarrow>
                       ((handleImageUpload e
                           \<lparr> fileName = ''generated.png'', fileType = ''image/png'',
                             fileBytes = blob \<rparr> a1)
                          \<lparr>sourceMode := Upload, isGeneratingInitial := False\<rparr>, w1))))"

definition handleGenerate :: "env \<Rightarrow> app \<times> world \<Rightarrow> app \<times> world" where
  "handleGenerate e s =
     (case s of (a, w) \<Rightarrow>
        if \<not> truthy (base64Image a) \<or> \<not> truthy (mimeType a) \<or> prompt a = [] \<or> apiKey a = []
        then (a\<lparr>error := Some MsgGenerateInputsMissing\<rparr>, w)
        else
          let a1 = a\<lparr>isLoading := True, error := None, generatedImage := None,
                     generatedText := None, statusMessage := StatusInitialising\<rparr>;
              template = (case base64Image a of Some b \<Rightarrow> b | None \<Rightarrow> []);
              mime = (case mimeType a of Some m \<Rightarrow> m | None \<Rightarrow> []);
              w0 = w\<lparr>timers := timers w @ [(1500, StatusAnalysing), (4000, StatusExtending)]\<rparr>;
              (res, reqs) = generatePanorama (service e) template mime (prompt a) (apiKey a);
              w1 = w0\<lparr>sent := sent w @ reqs\<rparr>;
              caught = (\<lambda>err (a', w').
                          (a'\<lparr>error := Some (messageOr MsgUnknownError err),
                              statusMessage := StatusEmpty, isLoading := False\<rparr>, w'))
          in (case res of
                Inl err \<Rightarrow> caught err (a1, w1)
              | Inr result \<Rightarrow>
                  let a2 = a1\<lparr>generatedImage := imageUrl result,
                             generatedText := resultText result,
                             statusMessage := StatusDone\<rparr>
                  in (case imageUrl result of
                        None \<Rightarrow> (a2\<lparr>isLoading := False\<rparr>, w1)
                      | Some url \<Rightarrow>
                          if url = [] then (a2\<lparr>isLoading := False\<rparr>, w1)
                          else
                            let newItem = \<lparr> itemId = now e, itemPrompt = prompt a,
                                            templateImageBase64 = template,
                                            templateImageMimeType = mime,
                                            generatedImageUrl = url \<rparr>
                            in (case updateHistory e (newItem # history a) (a2, w1) of
                                  (None, a3, w3) \<Rightarrow> (a3\<lparr>isLoading := False\<rparr>, w3)
                                | (Some err, a3, w3) \<Rightarrow> caught err (a3, w3)))))"

text \<open>\<open>parts[0].match(/:(.*?);/)?.[1] || 'image/png'\<close>\<close>

definition dataUrlMimeType :: "string \<Rightarrow> string" where
  "dataUrlMimeType p0 =
     (case matchColonSemicolon p0 of
        None \<Rightarrow> ''image/png''
      | Some g \<Rightarrow> if g = [] then ''image/png'' else g)"

definition handleEnhance :: "env \<Rightarrow> app \<times> world \<Rightarrow> app \<times> world" where
  "handleEnhance e s =
     (case s of (a, w) \<Rightarrow>
        (case generatedImage a of
           None \<Rightarrow> (a\<lparr>error := Some MsgNothingToEnhance\<rparr>, w)
         | Some shown \<Rightarrow>
             if shown = [] then (a\<lparr>error := Some MsgNothingToEnhance\<rparr>, w)
             else if apiKey a = [] then (a\<lparr>error := Some MsgEnterApiKey\<rparr>, w)
             else
               let a1 = a\<lparr>isEnhancing := True, error := None, generatedText := None\<rparr>;
                   caught = (\<lambda>err (a', w').
                               (a'\<lparr>error := Some (messageOr MsgUnknownEnhanceError err),
                                   isEnhancing := False\<rparr>, w'))
               in (case split CHR '','' shown of
                     [p0, base64Data] \<Rightarrow>
                       let (res, reqs) =
                             enhanceImage (service e) base64Data (dataUrlMimeType p0) (apiKey a);
                           w1 = w\<lparr>sent := sent w @ reqs\<rparr>
                       in (case res of
                             Inl err \<Rightarrow> caught err (a1, w1)
                           | Inr result \<Rightarrow>
                               let a2 = a1\<lparr>generatedImage := imageUrl result,
                                          generatedText := resultText result\<rparr>
                               in (case (imageUrl result, history a) of
                                     (Some url, latestHistoryItem # rest) \<Rightarrow>
                                       if url = [] then (a2\<lparr>isEnhancing := False\<rparr>, w1)
                                       else
                                         let updatedItem =
                                               latestHistoryItem\<lparr>generatedImageUrl := url\<rparr>
                                         in (case updateHistory e (updatedItem # rest) (a2, w1) of
                                               (None, a3, w3) \<Rightarrow> (a3\<lparr>isEnhancing := False\<rparr>, w3)
                                             | (Some err, a3, w3) \<Rightarrow> caught err (a3, w3))
                                   | _ \<Rightarrow> (a2\<lparr>isEnhancing := False\<rparr>, w1)))
                   | _ \<Rightarrow> caught (ErrorObj MsgBadResultDataUrl) (a1, w))))"

definition handleReuseItem :: "HistoryItem \<Rightarrow> app \<times> world \<Rightarrow> app \<times> world" where
  "handleReuseItem item s =
     (case s of (a, w) \<Rightarrow>
        (a\<lparr>prompt := itemPrompt item,
           base64Image := Some (templateImageBase64 item),
           mimeType := Some (templateImageMimeType item),
           imagePreview := Some (''data:'' @ templateImageMimeType item @ '';base64,''
                                 @ templateImageBase64 item),
           generatedImage := Some (generatedImageUrl item),
           generatedText := None,
           error := None,
           sourceMode := Upload\<rparr>, w))"

definition handleDeleteItem :: "env \<Rightarrow> int \<Rightarrow> app \<times> world \<Rightarrow> app \<times> world" where
  "handleDeleteItem e i s =
     (case s of (a, w) \<Rightarrow>
        snd (updateHistory e (filter (\<lambda>item. itemId item \<noteq> i) (history a)) (a, w)))"

definition handleClearHistory :: "env \<Rightarrow> app \<times> world \<Rightarrow> app \<times> world" where
  "handleClearHistory e s = (case s of (a, w) \<Rightarrow> snd (updateHistory e [] (a, w)))"

section \<open>Vocabulary of the properties\<close>

text \<open>
  The three inputs that the guard of \<open>handleGenerate\<close> tests, and those of them that a
  state lacks: the template is the base64 payload together with its format tag.
\<close>

datatype input = Template | PromptText | Credential

definition missingInputs :: "app \<Rightarrow> input list" where
  "missingInputs a =
     (if \<not> truthy (base64Image a) \<or> \<not> truthy (mimeType a) then [Template] else [])
     @ (if prompt a = [] then [PromptText] else [])
     @ (if apiKey a = [] then [Credential] else [])"

subsection \<open>Sample states\<close>

definition sampleItem :: HistoryItem where
  "sampleItem =
     \<lparr> itemId = 1700000000000, itemPrompt = ''sunset'',
       templateImageBase64 = ''T0xE'', templateImageMimeType = ''image/png'',
       generatedImageUrl = ''data:image/png;base64,UkVT'' \<rparr>"

definition olderItem :: HistoryItem where
  "olderItem =
     \<lparr> itemId = 1600000000000, itemPrompt = ''harbour'',
       templateImageBase64 = ''QUJD'', templateImageMimeType = ''image/png'',
       generatedImageUrl = ''data:image/jpeg;base64,Rk9P'' \<rparr>"

definition sampleApp :: app where
  "sampleApp =
     \<lparr> apiKey = ''key'', base64Image = Some ''T0xE'', imagePreview = Some ''blob:1'',
       mimeType = Some ''image/png'', prompt = ''sunset'',
       generatedImage = Some ''data:image/png;base64,UkVT'',
       generatedText = Some ''done'', isLoading = False, isEnhancing = False,
       error = None, statusMessage = StatusDone, history = [sampleItem, olderItem],
       sourceMode = Upload, initialPrompt = ''a robot'', isGeneratingInitial = False \<rparr>"

definition sampleWorld :: world where
  "sampleWorld = \<lparr> storedHistory = Some [sampleItem, olderItem], sent = [], timers = [] \<rparr>"

definition sampleBrowser :: browser where
  "sampleBrowser =
     \<lparr> decodeImage = (\<lambda>f. Some \<lparr> imgWidth = 1024, imgHeight = 1024 \<rparr>),
       hasContext2d = True,
       toDataURL = (\<lambda>c. ''data:image/png;base64,VE1Q''),
       createObjectURL = (\<lambda>f. ''blob:2''),
       fetchBlob = (\<lambda>u. Resolves ''PNG'') \<rparr>"

text \<open>A service that answers with one text part and one image part, and one that is down.\<close>

definition answeringService :: remote where
  "answeringService =
     \<lparr> generateImages = (\<lambda>q. Resolves
          \<lparr> generatedImages = Some [\<lparr> genImage = Some \<lparr> imageBytes = Some ''U1JD'' \<rparr> \<rparr>] \<rparr>),
       generateContent = (\<lambda>q. Resolves
          \<lparr> candidates = Some [\<lparr> content = Some \<lparr> parts = Some
              [\<lparr> inlineData = None, partText = Some ''here it is'' \<rparr>,
               \<lparr> inlineData = Some \<lparr> data = Some ''TkVX'', dataMimeType = Some ''image/png'' \<rparr>,
                 partText = None \<rparr>] \<rparr> \<rparr>] \<rparr>) \<rparr>"

definition failingService :: remote where
  "failingService =
     \<lparr> generateImages = (\<lambda>q. Rejects (ErrorObj (Foreign ''503 unavailable''))),
       generateContent = (\<lambda>q. Rejects (ErrorObj (Foreign ''503 unavailable''))) \<rparr>"

definition answeringEnv :: env where
  "answeringEnv =
     \<lparr> service = answeringService, page = sampleBrowser, now = 1800000000000,
       setItemThrows = None \<rparr>"

text \<open>An environment where the service is down and no image decodes.\<close>

definition failingEnv :: env where
  "failingEnv =
     \<lparr> service = failingService,
       page = sampleBrowser\<lparr>decodeImage := (\<lambda>f. None)\<rparr>,
       now = 1800000000000,
       setItemThrows = None \<rparr>"

section \<open>Properties of the compositor\<close>

lemmas compositor_defs =
  drawPlacement_def originalAspectRatio_def TARGET_WIDTH_def TARGET_HEIGHT_def
  TARGET_ASPECT_RATIO_def

text \<open>
  Claim C1. For a source image of width \<open>w\<close> and height \<open>h\<close>, both positive, the
  compositor draws with width 1280 and height \<open>1280 / (w / h)\<close> when \<open>w / h > 1280 / 720\<close>,
  and with height 720 and width \<open>720 * (w / h)\<close> otherwise; the offsets are
  \<open>(1280 - drawWidth) / 2\<close> and \<open>(720 - drawHeight) / 2\<close>, and neither is negative. A
  2000 by 1000 source is drawn 1280 by 640 at (0, 40), an 800 by 1600 source 360 by 720
  at (460, 0).
\<close>

theorem createImageTemplate_placement:
  "(0 < imgWidth img \<and> 0 < imgHeight img \<longrightarrow>
      (\<exists>p. drawPlacement img = Some p
         \<and> (if real (imgWidth img) / real (imgHeight img) > 1280 / 720
            then drawWidth p = 1280
               \<and> drawHeight p = 1280 / (real (imgWidth img) / real (imgHeight img))
            else drawHeight p = 720
               \<and> drawWidth p = 720 * (real (imgWidth img) / real (imgHeight img)))
         \<and> offsetX p = (1280 - drawWidth p) / 2
         \<and> offsetY p = (720 - drawHeight p) / 2
         \<and> 0 \<le> offsetX p \<and> 0 \<le> offsetY p))
   \<and> drawPlacement \<lparr> imgWidth = 2000, imgHeight = 1000 \<rparr>
       = Some \<lparr> offsetX = 0, offsetY = 40, drawWidth = 1280, drawHeight = 640 \<rparr>
   \<and> drawPlacement \<lparr> imgWidth = 800, imgHeight = 1600 \<rparr>
       = Some \<lparr> offsetX = 460, offsetY = 0, drawWidth = 360, drawHeight = 720 \<rparr>"
proof (intro conjI impI)
  assume pos: "0 < imgWidth img \<and> 0 < imgHeight img"
  define a where "a = real (imgWidth img) / real (imgHeight img)"
  have apos: "0 < a" using pos by (simp add: a_def)
  have ratio: "originalAspectRatio img = Finite a"
    using pos by (simp add: originalAspectRatio_def a_def)
  show "\<exists>p. drawPlacement img = Some p
         \<and> (if real (imgWidth img) / real (imgHeight img) > 1280 / 720
            then drawWidth p = 1280
               \<and> drawHeight p = 1280 / (real (imgWidth img) / real (imgHeight img))
            else drawHeight p = 720
               \<and> drawWidth p = 720 * (real (imgWidth img) / real (imgHeight img)))
         \<and> offsetX p = (1280 - drawWidth p) / 2
         \<and> offsetY p = (720 - drawHeight p) / 2
         \<and> 0 \<le> offsetX p \<and> 0 \<le> offsetY p"
  proof (cases "a > 1280 / 720")
    case True
    have "1280 / a \<le> 720"
      using True apos by (simp add: field_simps)
    then show ?thesis
      using True ratio
      by (simp add: drawPlacement_def TARGET_WIDTH_def TARGET_HEIGHT_def
          TARGET_ASPECT_RATIO_def a_def [symmetric])
  next
    case False
    have "720 * a \<le> 1280"
      using False by (simp add: field_simps)
    then show ?thesis
      using False ratio
      by (simp add: drawPlacement_def TARGET_WIDTH_def TARGET_HEIGHT_def
          TARGET_ASPECT_RATIO_def a_def [symmetric])
  qed
next
  show "drawPlacement \<lparr> imgWidth = 2000, imgHeight = 1000 \<rparr>
       = Some \<lparr> offsetX = 0, offsetY = 40, drawWidth = 1280, drawHeight = 640 \<rparr>"
    by (simp add: compositor_defs)
next
  show "drawPlacement \<lparr> imgWidth = 800, imgHeight = 1600 \<rparr>
       = Some \<lparr> offsetX = 460, offsetY = 0, drawWidth = 360, drawHeight = 720 \<rparr>"
    by (simp add: compositor_defs)
qed

theorem createImageTemplate_placement_witness:
  "0 < imgWidth \<lparr> imgWidth = 1920, imgHeight = 800 \<rparr>
   \<and> 0 < imgHeight \<lparr> imgWidth = 1920, imgHeight = 800 \<rparr>
   \<and> (\<exists>p. drawPlacement \<lparr> imgWidth = 1920, imgHeight = 800 \<rparr> = Some p
         \<and> drawWidth p = 1280 \<and> drawHeight p = 1280 / (1920 / 800)
         \<and> offsetX p = 0 \<and> 0 \<le> offsetY p)"
  using createImageTemplate_placement [of "\<lparr> imgWidth = 1920, imgHeight = 800 \<rparr>"]
  by auto

text \<open>
  Claim C2 says that a source with width at least its height is drawn 1280 wide. The
  compositor compares the aspect ratio with 1280 / 720, not with 1: a square source of
  1000 by 1000 pixels has width at least its height and is drawn 720 wide.
\<close>

theorem createImageTemplate_square_counterexample:
  "imgHeight \<lparr> imgWidth = 1000, imgHeight = 1000 \<rparr>
     \<le> imgWidth \<lparr> imgWidth = 1000, imgHeight = 1000 \<rparr>
   \<and> map_option drawWidth (drawPlacement \<lparr> imgWidth = 1000, imgHeight = 1000 \<rparr>) = Some 720
   \<and> map_option drawWidth (drawPlacement \<lparr> imgWidth = 1000, imgHeight = 1000 \<rparr>) \<noteq> Some 1280"
  by (simp add: compositor_defs)

text \<open>
  Claim C2, as amended. For every source image whose aspect ratio exceeds 1280 / 720 the
  draw width is 1280 and the draw height at most 720; for every other source image, and
  so for every one whose height exceeds its width, the draw height is 720 and the draw
  width at most 1280; the canvas is always 1280 by 720.
\<close>

theorem createImageTemplate_fits_by_aspect:
  "(0 < imgWidth img \<and> 0 < imgHeight img \<longrightarrow>
      (\<exists>p. drawnAt (composeCanvas img) = Some p
         \<and> (real (imgWidth img) / real (imgHeight img) > 1280 / 720
              \<longrightarrow> drawWidth p = 1280 \<and> drawHeight p \<le> 720)
         \<and> (real (imgWidth img) / real (imgHeight img) \<le> 1280 / 720
              \<longrightarrow> drawHeight p = 720 \<and> drawWidth p \<le> 1280)
         \<and> (imgHeight img > imgWidth img
              \<longrightarrow> drawHeight p = 720 \<and> drawWidth p \<le> 1280)))
   \<and> canvasWidth (composeCanvas img) = 1280
   \<and> canvasHeight (composeCanvas img) = 720"
proof (intro conjI impI)
  assume pos: "0 < imgWidth img \<and> 0 < imgHeight img"
  define a where "a = real (imgWidth img) / real (imgHeight img)"
  have apos: "0 < a" using pos by (simp add: a_def)
  have ratio: "originalAspectRatio img = Finite a"
    using pos by (simp add: originalAspectRatio_def a_def)
  have tall: "a \<le> 1280 / 720" if "imgHeight img > imgWidth img"
  proof -
    have "a < 1" using that pos by (simp add: a_def)
    then show ?thesis by simp
  qed
  show "\<exists>p. drawnAt (composeCanvas img) = Some p
         \<and> (real (imgWidth img) / real (imgHeight img) > 1280 / 720
              \<longrightarrow> drawWidth p = 1280 \<and> drawHeight p \<le> 720)
         \<and> (real (imgWidth img) / real (imgHeight img) \<le> 1280 / 720
              \<longrightarrow> drawHeight p = 720 \<and> drawWidth p \<le> 1280)
         \<and> (imgHeight img > imgWidth img
              \<longrightarrow> drawHeight p = 720 \<and> drawWidth p \<le> 1280)"
  proof (cases "a > 1280 / 720")
    case True
    have "1280 / a \<le> 720"
      using True apos by (simp add: field_simps)
    then show ?thesis
      using True ratio tall
      by (auto simp add: composeCanvas_def drawPlacement_def TARGET_WIDTH_def
          TARGET_HEIGHT_def TARGET_ASPECT_RATIO_def a_def [symmetric])
  next
    case False
    have "720 * a \<le> 1280"
      using False by (simp add: field_simps)
    then show ?thesis
      using False ratio
      by (auto simp add: composeCanvas_def drawPlacement_def TARGET_WIDTH_def
          TARGET_HEIGHT_def TARGET_ASPECT_RATIO_def a_def [symmetric])
  qed
next
  show "canvasWidth (composeCanvas img) = 1280"
    by (simp add: composeCanvas_def TARGET_WIDTH_def)
next
  show "canvasHeight (composeCanvas img) = 720"
    by (simp add: composeCanvas_def TARGET_HEIGHT_def)
qed

theorem createImageTemplate_fits_by_aspect_witness:
  "(\<exists>p. drawnAt (composeCanvas \<lparr> imgWidth = 2000, imgHeight = 1000 \<rparr>) = Some p
       \<and> drawWidth p = 1280 \<and> drawHeight p \<le> 720)
   \<and> (\<exists>p. drawnAt (composeCanvas \<lparr> imgWidth = 1000, imgHeight = 1000 \<rparr>) = Some p
       \<and> drawHeight p = 720 \<and> drawWidth p \<le> 1280)
   \<and> (\<exists>p. drawnAt (composeCanvas \<lparr> imgWidth = 800, imgHeight = 1600 \<rparr>) = Some p
       \<and> drawHeight p = 720 \<and> drawWidth p \<le> 1280)
   \<and> canvasWidth (composeCanvas \<lparr> imgWidth = 800, imgHeight = 1600 \<rparr>) = 1280
   \<and> canvasHeight (composeCanvas \<lparr> imgWidth = 800, imgHeight = 1600 \<rparr>) = 720"
  using createImageTemplate_fits_by_aspect [of "\<lparr> imgWidth = 2000, imgHeight = 1000 \<rparr>"]
    createImageTemplate_fits_by_aspect [of "\<lparr> imgWidth = 1000, imgHeight = 1000 \<rparr>"]
    createImageTemplate_fits_by_aspect [of "\<lparr> imgWidth = 800, imgHeight = 1600 \<rparr>"]
  by auto

text \<open>
  Claim C8. For a source image of exactly 1280 by 720 pixels the draw dimensions are
  1280 by 720, the image's own, and both offsets are 0: the image is drawn at the origin,
  unscaled, and covers the 1280 by 720 canvas exactly.
\<close>

theorem createImageTemplate_target_size_fixed:
  "composeCanvas \<lparr> imgWidth = 1280, imgHeight = 720 \<rparr>
     = \<lparr> canvasWidth = 1280, canvasHeight = 720,
         drawnImage = \<lparr> imgWidth = 1280, imgHeight = 720 \<rparr>,
         drawnAt = Some \<lparr> offsetX = 0, offsetY = 0,
                          drawWidth = real (imgWidth \<lparr> imgWidth = 1280, imgHeight = 720 \<rparr>),
                          drawHeight = real (imgHeight \<lparr> imgWidth = 1280, imgHeight = 720 \<rparr>) \<rparr> \<rparr>
   \<and> drawPlacement \<lparr> imgWidth = 1280, imgHeight = 720 \<rparr>
     = Some \<lparr> offsetX = 0, offsetY = 0, drawWidth = 1280, drawHeight = 720 \<rparr>"
  by (simp add: composeCanvas_def compositor_defs)

section \<open>Properties of the remote services\<close>

text \<open>
  Claim C7. Each of the three remote operations, called with an empty credential, fails
  with the missing-credential error and sends no request.
\<close>

theorem remote_calls_need_credential:
  "generateSourceImage r p [] = (Inl (ErrorObj MsgApiKeyNotProvided), [])
   \<and> generatePanorama r d m p [] = (Inl (ErrorObj MsgApiKeyNotProvided), [])
   \<and> enhanceImage r d m [] = (Inl (ErrorObj MsgApiKeyNotProvided), [])"
  by (simp add: generateSourceImage_def generatePanorama_def enhanceImage_def)

lemma truthy_Some [simp]: "truthy (Some s) = (s \<noteq> [])"
  by (simp add: truthy_def)

lemma truthy_None [simp]: "truthy None = False"
  by (simp add: truthy_def)

text \<open>The loop over the parts only ever stores a data URL with a non-empty payload.\<close>

lemma scanParts_url:
  "scanParts ps (u, t) = (u', t') \<Longrightarrow>
   (u = None \<or> (\<exists>mt payload. payload \<noteq> [] \<and> u = Some (''data:'' @ mt @ '';base64,'' @ payload))) \<Longrightarrow>
   (u' = None \<or> (\<exists>mt payload. payload \<noteq> [] \<and> u' = Some (''data:'' @ mt @ '';base64,'' @ payload)))"
proof (induction ps arbitrary: u t)
  case Nil
  then show ?case by simp
next
  case (Cons p ps)
  show ?case
  proof (cases "partImageUrl p")
    case None
    with Cons.prems Cons.IH show ?thesis
      by (auto split: if_splits)
  next
    case (Some url)
    then have form: "\<exists>mt payload. payload \<noteq> [] \<and> url = ''data:'' @ mt @ '';base64,'' @ payload"
      unfolding partImageUrl_def
      by (force split: option.splits if_splits)
    from Cons.prems(1) Some have "scanParts ps (Some url, t) = (u', t')"
      by simp
    from Cons.IH [OF this] form show ?thesis
      by blast
  qed
qed

lemma readResponse_url:
  assumes "readResponse msg response = Inr res"
  shows "\<exists>mt payload. payload \<noteq> [] \<and> imageUrl res = Some (''data:'' @ mt @ '';base64,'' @ payload)"
proof -
  from assms obtain ps t where scan: "scanParts ps (None, None) = (imageUrl res, t)"
    and tr: "truthy (imageUrl res)"
    unfolding readResponse_def
    by (auto simp: truthy_def split: option.splits list.splits sum.splits if_splits prod.splits)
  from scanParts_url [OF scan] tr show ?thesis
    by (auto simp: truthy_def)
qed

lemma generatePanorama_Inr:
  "fst (generatePanorama r d m p k) = Inr res \<Longrightarrow>
   \<exists>response. generateContent r (GenerateContentRequest k d m (OutpaintInstruction p)) = Resolves response
      \<and> readResponse MsgNoImageInResponse response = Inr res \<and> k \<noteq> []"
  by (auto simp: generatePanorama_def Let_def split: if_splits promise.splits sum.splits)

lemma enhanceImage_Inr:
  "fst (enhanceImage r d m k) = Inr res \<Longrightarrow>
   \<exists>response. generateContent r (GenerateContentRequest k d m EnhanceInstruction) = Resolves response
      \<and> readResponse MsgNoEnhancedImage response = Inr res \<and> k \<noteq> []"
  by (auto simp: enhanceImage_def Let_def split: if_splits promise.splits sum.splits)

lemma generatePanorama_url:
  assumes "fst (generatePanorama r d m p k) = Inr res"
  shows "\<exists>mt payload. payload \<noteq> [] \<and> imageUrl res = Some (''data:'' @ mt @ '';base64,'' @ payload)"
proof -
  from assms obtain response where "readResponse MsgNoImageInResponse response = Inr res"
    using generatePanorama_Inr by blast
  then show ?thesis by (rule readResponse_url)
qed

lemma enhanceImage_url:
  assumes "fst (enhanceImage r d m k) = Inr res"
  shows "\<exists>mt payload. payload \<noteq> [] \<and> imageUrl res = Some (''data:'' @ mt @ '';base64,'' @ payload)"
proof -
  from assms obtain response where "readResponse MsgNoEnhancedImage response = Inr res"
    using enhanceImage_Inr by blast
  then show ?thesis by (rule readResponse_url)
qed

subsection \<open>The sample services\<close>

lemma answering_readResponse:
  "readResponse msg
     \<lparr> candidates = Some [\<lparr> content = Some \<lparr> parts = Some
              [\<lparr> inlineData = None, partText = Some ''here it is'' \<rparr>,
               \<lparr> inlineData = Some \<lparr> data = Some ''TkVX'', dataMimeType = Some ''image/png'' \<rparr>,
                 partText = None \<rparr>] \<rparr> \<rparr>] \<rparr>
   = Inr \<lparr> imageUrl = Some ''data:image/png;base64,TkVX'', resultText = Some ''here it is'' \<rparr>"
  by (simp add: readResponse_def partImageUrl_def)

lemma answering_generatePanorama:
  "k \<noteq> [] \<Longrightarrow> generatePanorama answeringService d m p k
   = (Inr \<lparr> imageUrl = Some ''data:image/png;base64,TkVX'', resultText = Some ''here it is'' \<rparr>,
      [GenerateContentRequest k d m (OutpaintInstruction p)])"
  by (simp add: generatePanorama_def answeringService_def answering_readResponse)

lemma answering_enhanceImage:
  "k \<noteq> [] \<Longrightarrow> enhanceImage answeringService d m k
   = (Inr \<lparr> imageUrl = Some ''data:image/png;base64,TkVX'', resultText = Some ''here it is'' \<rparr>,
      [GenerateContentRequest k d m EnhanceInstruction])"
  by (simp add: enhanceImage_def answeringService_def answering_readResponse)

lemma failing_generatePanorama:
  "k \<noteq> [] \<Longrightarrow> generatePanorama failingService d m p k
   = (Inl (ErrorObj MsgPanoramaFailed), [GenerateContentRequest k d m (OutpaintInstruction p)])"
  by (simp add: generatePanorama_def failingService_def rethrow_def hasCredentialMarker_def)

lemma failing_enhanceImage:
  "k \<noteq> [] \<Longrightarrow> enhanceImage failingService d m k
   = (Inl (ErrorObj MsgEnhanceFailed), [GenerateContentRequest k d m EnhanceInstruction])"
  by (simp add: enhanceImage_def failingService_def rethrow_def hasCredentialMarker_def)

lemma failing_generateSourceImage:
  "k \<noteq> [] \<Longrightarrow> generateSourceImage failingService p k
   = (Inl (ErrorObj MsgSourceImageFailedRetry), [GenerateImagesRequest k p])"
  by (simp add: generateSourceImage_def failingService_def rethrow_def hasCredentialMarker_def)

lemma sample_split:
  "split CHR '','' ''data:image/png;base64,UkVT'' = [''data:image/png;base64'', ''UkVT'']"
  by simp

lemma sample_mime: "dataUrlMimeType ''data:image/png;base64'' = ''image/png''"
  by (simp add: dataUrlMimeType_def isLineTerminator_def)

section \<open>Properties of the controller\<close>

text \<open>
  A handler run is taken as a whole: no other user action comes between its start and
  its end.
\<close>

subsection \<open>Generating a panorama\<close>

lemma missingInputs_Nil:
  "missingInputs a = [] \<longleftrightarrow>
     (\<exists>b m. base64Image a = Some b \<and> mimeType a = Some m \<and> b \<noteq> [] \<and> m \<noteq> []
        \<and> prompt a \<noteq> [] \<and> apiKey a \<noteq> [])"
  by (auto simp: missingInputs_def truthy_def split: option.splits)

lemma handleGenerate_rejected:
  "missingInputs a \<noteq> [] \<Longrightarrow>
   handleGenerate e (a, w) = (a\<lparr>error := Some MsgGenerateInputsMissing\<rparr>, w)"
  by (auto simp: handleGenerate_def missingInputs_def split: if_splits)

lemma handleGenerate_failed:
  assumes "base64Image a = Some b" "mimeType a = Some m" "b \<noteq> []" "m \<noteq> []"
    "prompt a \<noteq> []" "apiKey a \<noteq> []"
    and "generatePanorama (service e) b m (prompt a) (apiKey a) = (Inl err, reqs)"
  shows "handleGenerate e (a, w) =
           (a\<lparr>isLoading := False, error := Some (messageOr MsgUnknownError err),
              generatedImage := None, generatedText := None, statusMessage := StatusEmpty\<rparr>,
            w\<lparr>timers := timers w @ [(1500, StatusAnalysing), (4000, StatusExtending)],
              sent := sent w @ reqs\<rparr>)"
  using assms by (simp add: handleGenerate_def)

lemma handleGenerate_succeeded:
  assumes "base64Image a = Some b" "mimeType a = Some m" "b \<noteq> []" "m \<noteq> []"
    "prompt a \<noteq> []" "apiKey a \<noteq> []"
    and "generatePanorama (service e) b m (prompt a) (apiKey a) = (Inr res, reqs)"
    and "imageUrl res = Some url" "url \<noteq> []"
  shows "history (fst (handleGenerate e (a, w))) =
           \<lparr> itemId = now e, itemPrompt = prompt a, templateImageBase64 = b,
             templateImageMimeType = m, generatedImageUrl = url \<rparr> # history a"
  using assms by (simp add: handleGenerate_def updateHistory_def Let_def split: option.splits)

lemma handleGenerate_prepends:
  assumes "base64Image a = Some b" "mimeType a = Some m" "b \<noteq> []" "m \<noteq> []"
    "prompt a \<noteq> []" "apiKey a \<noteq> []"
    and ok: "fst (generatePanorama (service e) b m (prompt a) (apiKey a)) = Inr res"
  shows "\<exists>url. imageUrl res = Some url
           \<and> history (fst (handleGenerate e (a, w))) =
               \<lparr> itemId = now e, itemPrompt = prompt a, templateImageBase64 = b,
                 templateImageMimeType = m, generatedImageUrl = url \<rparr> # history a"
proof -
  from ok obtain reqs where call:
    "generatePanorama (service e) b m (prompt a) (apiKey a) = (Inr res, reqs)"
    by (cases "generatePanorama (service e) b m (prompt a) (apiKey a)") simp
  from generatePanorama_url [OF ok] obtain url where url: "imageUrl res = Some url" "url \<noteq> []"
    by auto
  from handleGenerate_succeeded [OF assms(1-6) call url, of w] url(1)
  show ?thesis by blast
qed

text \<open>
  Claim C4. For a generate action that issues the outpaint call (template, prompt and
  credential present): when the call succeeds, the history afterwards is one new entry,
  made of the time, the prompt, the template and the returned image, in front of the
  history before, so it is one longer and its tail is the old list; when the call fails,
  the history is the one before.
\<close>

theorem handleGenerate_history:
  assumes "base64Image a = Some b" "mimeType a = Some m" "b \<noteq> []" "m \<noteq> []"
    "prompt a \<noteq> []" "apiKey a \<noteq> []"
  shows "(\<forall>res. fst (generatePanorama (service e) b m (prompt a) (apiKey a)) = Inr res \<longrightarrow>
            (\<exists>url. imageUrl res = Some url
               \<and> history (fst (handleGenerate e (a, w))) =
                   \<lparr> itemId = now e, itemPrompt = prompt a, templateImageBase64 = b,
                     templateImageMimeType = m, generatedImageUrl = url \<rparr> # history a)
            \<and> length (history (fst (handleGenerate e (a, w)))) = Suc (length (history a))
            \<and> tl (history (fst (handleGenerate e (a, w)))) = history a)
       \<and> (\<forall>err. fst (generatePanorama (service e) b m (prompt a) (apiKey a)) = Inl err \<longrightarrow>
            history (fst (handleGenerate e (a, w))) = history a)"
proof (intro conjI allI impI)
  fix res
  assume ok: "fst (generatePanorama (service e) b m (prompt a) (apiKey a)) = Inr res"
  from handleGenerate_prepends [OF assms ok, of w] obtain url where
    new: "imageUrl res = Some url"
      "history (fst (handleGenerate e (a, w))) =
         \<lparr> itemId = now e, itemPrompt = prompt a, templateImageBase64 = b,
           templateImageMimeType = m, generatedImageUrl = url \<rparr> # history a"
    by blast
  then show "\<exists>url. imageUrl res = Some url
               \<and> history (fst (handleGenerate e (a, w))) =
                   \<lparr> itemId = now e, itemPrompt = prompt a, templateImageBase64 = b,
                     templateImageMimeType = m, generatedImageUrl = url \<rparr> # history a"
    by blast
  from new(2) show "length (history (fst (handleGenerate e (a, w)))) = Suc (length (history a))"
    by simp
  from new(2) show "tl (history (fst (handleGenerate e (a, w)))) = history a"
    by simp
next
  fix err
  assume "fst (generatePanorama (service e) b m (prompt a) (apiKey a)) = Inl err"
  then obtain reqs where call:
    "generatePanorama (service e) b m (prompt a) (apiKey a) = (Inl err, reqs)"
    by (cases "generatePanorama (service e) b m (prompt a) (apiKey a)") simp
  show "history (fst (handleGenerate e (a, w))) = history a"
    by (simp add: handleGenerate_failed [OF assms call])
qed

theorem handleGenerate_history_witness:
  "history (fst (handleGenerate answeringEnv (sampleApp, sampleWorld))) =
     \<lparr> itemId = 1800000000000, itemPrompt = ''sunset'', templateImageBase64 = ''T0xE'',
       templateImageMimeType = ''image/png'',
       generatedImageUrl = ''data:image/png;base64,TkVX'' \<rparr> # [sampleItem, olderItem]
   \<and> history (fst (handleGenerate failingEnv (sampleApp, sampleWorld))) = [sampleItem, olderItem]"
  using handleGenerate_history [of sampleApp "''T0xE''" "''image/png''" answeringEnv sampleWorld]
    handleGenerate_history [of sampleApp "''T0xE''" "''image/png''" failingEnv sampleWorld]
    answering_generatePanorama [of "''key''" "''T0xE''" "''image/png''" "''sunset''"]
    failing_generatePanorama [of "''key''" "''T0xE''" "''image/png''" "''sunset''"]
  by (simp add: sampleApp_def answeringEnv_def failingEnv_def)

text \<open>
  Claim C6 says that the rejection names the missing field. The guard of
  \<open>handleGenerate\<close> has one message for all cases: a state that lacks only the template
  and a state that lacks only the credential are rejected with the same message.
\<close>

theorem handleGenerate_same_message_counterexample:
  "missingInputs (sampleApp\<lparr>base64Image := None\<rparr>) = [Template]
   \<and> missingInputs (sampleApp\<lparr>apiKey := []\<rparr>) = [Credential]
   \<and> error (fst (handleGenerate answeringEnv (sampleApp\<lparr>base64Image := None\<rparr>, sampleWorld)))
       = Some MsgGenerateInputsMissing
   \<and> error (fst (handleGenerate answeringEnv (sampleApp\<lparr>apiKey := []\<rparr>, sampleWorld)))
       = Some MsgGenerateInputsMissing"
  by (simp add: missingInputs_def handleGenerate_def sampleApp_def)

text \<open>
  Claim C6, as amended. In every state in which the template (payload or format tag),
  the prompt or the credential is absent, the generate action sends no request and sets
  the error to one fixed message, the same whichever input is missing, which asks for all
  three; nothing else of the state changes.
\<close>

theorem handleGenerate_rejects_missing_inputs:
  "missingInputs a \<noteq> [] \<Longrightarrow>
   handleGenerate e (a, w) = (a\<lparr>error := Some MsgGenerateInputsMissing\<rparr>, w)
   \<and> sent (snd (handleGenerate e (a, w))) = sent w"
  by (simp add: handleGenerate_rejected)

theorem handleGenerate_rejects_missing_inputs_witness:
  "missingInputs (sampleApp\<lparr>apiKey := []\<rparr>) \<noteq> []
   \<and> handleGenerate answeringEnv (sampleApp\<lparr>apiKey := []\<rparr>, sampleWorld)
       = (sampleApp\<lparr>apiKey := [], error := Some MsgGenerateInputsMissing\<rparr>, sampleWorld)
   \<and> sent (snd (handleGenerate answeringEnv (sampleApp\<lparr>apiKey := []\<rparr>, sampleWorld))) = []"
  using handleGenerate_rejects_missing_inputs
    [of "sampleApp\<lparr>apiKey := []\<rparr>" answeringEnv sampleWorld]
  by (simp add: missingInputs_def sampleApp_def sampleWorld_def)

subsection \<open>Enhancing the result\<close>

lemma handleEnhance_succeeded:
  assumes "generatedImage a = Some shown" "apiKey a \<noteq> []"
    and "split CHR '','' shown = [p0, base64Data]"
    and "enhanceImage (service e) base64Data (dataUrlMimeType p0) (apiKey a) = (Inr res, reqs)"
    and "imageUrl res = Some url" "url \<noteq> []"
    and "history a = latest # rest"
  shows "history (fst (handleEnhance e (a, w))) = latest\<lparr>generatedImageUrl := url\<rparr> # rest"
proof -
  have "shown \<noteq> []" using assms(3) by auto
  with assms show ?thesis
    by (simp add: handleEnhance_def updateHistory_def Let_def split: option.splits)
qed

lemma handleEnhance_rewrites_newest:
  assumes "generatedImage a = Some shown" "apiKey a \<noteq> []"
    and "split CHR '','' shown = [p0, base64Data]"
    and ok: "fst (enhanceImage (service e) base64Data (dataUrlMimeType p0) (apiKey a)) = Inr res"
    and "history a = latest # rest"
  shows "\<exists>url. imageUrl res = Some url
           \<and> history (fst (handleEnhance e (a, w))) = latest\<lparr>generatedImageUrl := url\<rparr> # rest"
proof -
  from ok obtain reqs where call:
    "enhanceImage (service e) base64Data (dataUrlMimeType p0) (apiKey a) = (Inr res, reqs)"
    by (cases "enhanceImage (service e) base64Data (dataUrlMimeType p0) (apiKey a)") simp
  from enhanceImage_url [OF ok] obtain url where url: "imageUrl res = Some url" "url \<noteq> []"
    by auto
  from handleEnhance_succeeded [OF assms(1-3) call url assms(5), of w] url(1)
  show ?thesis by blast
qed

text \<open>
  Claim C5. With a non-empty history, an enhance action whose remote call succeeds
  leaves a history whose newest entry is the old newest entry with only its result image
  replaced (identifier, prompt, template payload and template format as before) and whose
  remaining entries are the old ones.
\<close>

theorem handleEnhance_newest_only:
  assumes "generatedImage a = Some shown" "apiKey a \<noteq> []"
    and "split CHR '','' shown = [p0, base64Data]"
    and "fst (enhanceImage (service e) base64Data (dataUrlMimeType p0) (apiKey a)) = Inr res"
    and "history a = latest # rest"
  shows "\<exists>url. imageUrl res = Some url
           \<and> history (fst (handleEnhance e (a, w))) = latest\<lparr>generatedImageUrl := url\<rparr> # rest
           \<and> itemId (hd (history (fst (handleEnhance e (a, w))))) = itemId latest
           \<and> itemPrompt (hd (history (fst (handleEnhance e (a, w))))) = itemPrompt latest
           \<and> templateImageBase64 (hd (history (fst (handleEnhance e (a, w)))))
               = templateImageBase64 latest
           \<and> templateImageMimeType (hd (history (fst (handleEnhance e (a, w)))))
               = templateImageMimeType latest
           \<and> tl (history (fst (handleEnhance e (a, w)))) = rest"
proof -
  from handleEnhance_rewrites_newest [OF assms, of w] obtain url where
    "imageUrl res = Some url"
    "history (fst (handleEnhance e (a, w))) = latest\<lparr>generatedImageUrl := url\<rparr> # rest"
    by blast
  then show ?thesis by simp
qed

theorem handleEnhance_newest_only_witness:
  "history (fst (handleEnhance answeringEnv (sampleApp, sampleWorld))) =
     [sampleItem\<lparr>generatedImageUrl := ''data:image/png;base64,TkVX''\<rparr>, olderItem]
   \<and> itemId (hd (history (fst (handleEnhance answeringEnv (sampleApp, sampleWorld)))))
       = itemId sampleItem
   \<and> tl (history (fst (handleEnhance answeringEnv (sampleApp, sampleWorld)))) = [olderItem]"
  using handleEnhance_newest_only [of sampleApp "''data:image/png;base64,UkVT''"
      "''data:image/png;base64''" "''UkVT''" answeringEnv
      "\<lparr> imageUrl = Some ''data:image/png;base64,TkVX'', resultText = Some ''here it is'' \<rparr>"
      sampleItem "[olderItem]" sampleWorld]
    answering_enhanceImage [of "''key''" "''UkVT''" "''image/png''"]
    sample_split sample_mime
  by (simp add: sampleApp_def answeringEnv_def)

subsection \<open>What a successful remote call guarantees\<close>

text \<open>
  Claim C10. When \<open>generatePanorama\<close> or \<open>enhanceImage\<close> returns instead of throwing,
  the image URL of the result is present and has the form \<open>data:\<close>, format tag,
  \<open>;base64,\<close>, non-empty payload, so it is truthy. Hence after every successful outpaint
  the history is one entry longer, and after every successful enhance with a non-empty
  history the newest entry carries the returned image.
\<close>

theorem remote_result_carries_image:
  "(fst (generatePanorama r d m p k) = Inr res \<longrightarrow>
      (\<exists>mt payload. payload \<noteq> []
          \<and> imageUrl res = Some (''data:'' @ mt @ '';base64,'' @ payload))
      \<and> truthy (imageUrl res))
   \<and> (fst (enhanceImage r d m k) = Inr res \<longrightarrow>
      (\<exists>mt payload. payload \<noteq> []
          \<and> imageUrl res = Some (''data:'' @ mt @ '';base64,'' @ payload))
      \<and> truthy (imageUrl res))
   \<and> (base64Image a = Some b \<and> mimeType a = Some fmt \<and> b \<noteq> [] \<and> fmt \<noteq> []
        \<and> prompt a \<noteq> [] \<and> apiKey a \<noteq> []
        \<and> fst (generatePanorama (service e) b fmt (prompt a) (apiKey a)) = Inr res \<longrightarrow>
      length (history (fst (handleGenerate e (a, w)))) = Suc (length (history a)))
   \<and> (generatedImage a = Some shown \<and> apiKey a \<noteq> []
        \<and> split CHR '','' shown = [p0, base64Data]
        \<and> fst (enhanceImage (service e) base64Data (dataUrlMimeType p0) (apiKey a)) = Inr res
        \<and> history a = latest # rest \<longrightarrow>
      (\<exists>url. imageUrl res = Some url
         \<and> hd (history (fst (handleEnhance e (a, w)))) = latest\<lparr>generatedImageUrl := url\<rparr>))"
proof (intro conjI impI)
  assume "fst (generatePanorama r d m p k) = Inr res"
  from generatePanorama_url [OF this]
  show "\<exists>mt payload. payload \<noteq> []
          \<and> imageUrl res = Some (''data:'' @ mt @ '';base64,'' @ payload)" .
  then show "truthy (imageUrl res)" by auto
next
  assume "fst (enhanceImage r d m k) = Inr res"
  from enhanceImage_url [OF this]
  show "\<exists>mt payload. payload \<noteq> []
          \<and> imageUrl res = Some (''data:'' @ mt @ '';base64,'' @ payload)" .
  then show "truthy (imageUrl res)" by auto
next
  assume h: "base64Image a = Some b \<and> mimeType a = Some fmt \<and> b \<noteq> [] \<and> fmt \<noteq> []
        \<and> prompt a \<noteq> [] \<and> apiKey a \<noteq> []
        \<and> fst (generatePanorama (service e) b fmt (prompt a) (apiKey a)) = Inr res"
  then have "\<exists>url. imageUrl res = Some url
           \<and> history (fst (handleGenerate e (a, w))) =
               \<lparr> itemId = now e, itemPrompt = prompt a, templateImageBase64 = b,
                 templateImageMimeType = fmt, generatedImageUrl = url \<rparr> # history a"
    using handleGenerate_prepends [of a b fmt e res w]
    by blast
  then show "length (history (fst (handleGenerate e (a, w)))) = Suc (length (history a))"
    by auto
next
  assume h: "generatedImage a = Some shown \<and> apiKey a \<noteq> []
        \<and> split CHR '','' shown = [p0, base64Data]
        \<and> fst (enhanceImage (service e) base64Data (dataUrlMimeType p0) (apiKey a)) = Inr res
        \<and> history a = latest # rest"
  then have "\<exists>url. imageUrl res = Some url
           \<and> history (fst (handleEnhance e (a, w))) = latest\<lparr>generatedImageUrl := url\<rparr> # rest"
    using handleEnhance_rewrites_newest [of a shown p0 base64Data e res latest rest w]
    by blast
  then show "\<exists>url. imageUrl res = Some url
         \<and> hd (history (fst (handleEnhance e (a, w)))) = latest\<lparr>generatedImageUrl := url\<rparr>"
    by auto
qed

theorem remote_result_carries_image_witness:
  "fst (generatePanorama answeringService ''T0xE'' ''image/png'' ''sunset'' ''key'')
     = Inr \<lparr> imageUrl = Some ''data:image/png;base64,TkVX'', resultText = Some ''here it is'' \<rparr>
   \<and> fst (enhanceImage answeringService ''T0xE'' ''image/png'' ''key'')
     = Inr \<lparr> imageUrl = Some ''data:image/png;base64,TkVX'', resultText = Some ''here it is'' \<rparr>
   \<and> truthy (imageUrl \<lparr> imageUrl = Some ''data:image/png;base64,TkVX'',
                          resultText = Some ''here it is'' \<rparr>)
   \<and> length (history (fst (handleGenerate answeringEnv (sampleApp, sampleWorld)))) = 3
   \<and> hd (history (fst (handleEnhance answeringEnv (sampleApp, sampleWorld))))
       = sampleItem\<lparr>generatedImageUrl := ''data:image/png;base64,TkVX''\<rparr>"
  using remote_result_carries_image
      [where r = answeringService and d = "''T0xE''" and m = "''image/png''"
         and p = "''sunset''" and k = "''key''"
         and res = "\<lparr> imageUrl = Some ''data:image/png;base64,TkVX'',
                       resultText = Some ''here it is'' \<rparr>"
         and a = sampleApp and b = "''T0xE''" and fmt = "''image/png''"
         and e = answeringEnv and w = sampleWorld
         and shown = "''data:image/png;base64,UkVT''" and ?p0.0 = "''data:image/png;base64''"
         and base64Data = "''UkVT''" and latest = sampleItem and rest = "[olderItem]"]
    answering_generatePanorama [of "''key''" "''T0xE''" "''image/png''" "''sunset''"]
    answering_enhanceImage [of "''key''" "''T0xE''" "''image/png''"]
    answering_enhanceImage [of "''key''" "''UkVT''" "''image/png''"]
    sample_split sample_mime
  by (simp add: sampleApp_def answeringEnv_def)

subsection \<open>Failed operations\<close>

text \<open>
  Claim C3 says that a failed operation leaves the displayed result as it was. A
  generation clears the displayed image and text before it calls the service, so when the
  service is down the error is reported and the image and text shown before are gone.
\<close>

theorem handleGenerate_failure_clears_result_counterexample:
  "error (fst (handleGenerate failingEnv (sampleApp, sampleWorld))) = Some MsgPanoramaFailed
   \<and> generatedImage sampleApp = Some ''data:image/png;base64,UkVT''
   \<and> generatedImage (fst (handleGenerate failingEnv (sampleApp, sampleWorld))) = None
   \<and> generatedText sampleApp = Some ''done''
   \<and> generatedText (fst (handleGenerate failingEnv (sampleApp, sampleWorld))) = None"
  using failing_generatePanorama [of "''key''" "''T0xE''" "''image/png''" "''sunset''"]
  by (simp add: handleGenerate_def sampleApp_def failingEnv_def messageOr_def)

lemma handleGenerate_error_frame:
  assumes "setItemThrows e = None" and "error (fst (handleGenerate e (a, w))) \<noteq> None"
  shows "history (fst (handleGenerate e (a, w))) = history a
       \<and> storedHistory (snd (handleGenerate e (a, w))) = storedHistory w
       \<and> (missingInputs a \<noteq> [] \<longrightarrow>
            handleGenerate e (a, w) = (a\<lparr>error := Some MsgGenerateInputsMissing\<rparr>, w))
       \<and> (missingInputs a = [] \<longrightarrow>
            fst (handleGenerate e (a, w))
              = a\<lparr>isLoading := False, error := error (fst (handleGenerate e (a, w))),
                  generatedImage := None, generatedText := None,
                  statusMessage := StatusEmpty\<rparr>
          \<and> timers (snd (handleGenerate e (a, w)))
              = timers w @ [(1500, StatusAnalysing), (4000, StatusExtending)])"
proof (cases "missingInputs a = []")
  case False
  then show ?thesis by (simp add: handleGenerate_rejected)
next
  case True
  then obtain b m where pre: "base64Image a = Some b" "mimeType a = Some m" "b \<noteq> []" "m \<noteq> []"
    "prompt a \<noteq> []" "apiKey a \<noteq> []"
    unfolding missingInputs_Nil by blast
  obtain res reqs where call: "generatePanorama (service e) b m (prompt a) (apiKey a) = (res, reqs)"
    by (cases "generatePanorama (service e) b m (prompt a) (apiKey a)")
  show ?thesis
  proof (cases res)
    case (Inl err)
    with call have "generatePanorama (service e) b m (prompt a) (apiKey a) = (Inl err, reqs)"
      by simp
    from handleGenerate_failed [OF pre this] True show ?thesis by simp
  next
    case (Inr r)
    with call pre assms(1) have "error (fst (handleGenerate e (a, w))) = None"
      by (simp add: handleGenerate_def updateHistory_def Let_def split: option.splits)
    with assms(2) show ?thesis by simp
  qed
qed

lemma handleEnhance_rejected:
  "\<not> truthy (generatedImage a) \<or> apiKey a = [] \<Longrightarrow>
   handleEnhance e (a, w)
     = (a\<lparr>error := Some (if \<not> truthy (generatedImage a) then MsgNothingToEnhance
                            else MsgEnterApiKey)\<rparr>, w)"
  by (auto simp: handleEnhance_def truthy_def split: option.splits)

lemma handleEnhance_started_error:
  assumes store: "setItemThrows e = None"
    and shown: "generatedImage a = Some shown" "shown \<noteq> []" and key: "apiKey a \<noteq> []"
    and err: "error (fst (handleEnhance e (a, w))) \<noteq> None"
  shows "fst (handleEnhance e (a, w))
           = a\<lparr>isEnhancing := False, error := error (fst (handleEnhance e (a, w))),
               generatedText := None\<rparr>
       \<and> storedHistory (snd (handleEnhance e (a, w))) = storedHistory w"
proof -
  have bad: "handleEnhance e (a, w)
      = (a\<lparr>isEnhancing := False, error := Some MsgBadResultDataUrl, generatedText := None\<rparr>, w)"
    if "\<And>p0 base64Data. split CHR '','' shown \<noteq> [p0, base64Data]"
  proof (cases "split CHR '','' shown")
    case Nil
    with shown key show ?thesis
      by (simp add: handleEnhance_def messageOr_def)
  next
    case (Cons p0 t)
    show ?thesis
    proof (cases t)
      case Nil
      with Cons shown key show ?thesis
        by (simp add: handleEnhance_def messageOr_def)
    next
      case t: (Cons b t2)
      with Cons that have "t2 \<noteq> []" by auto
      then obtain c t3 where "t2 = c # t3" by (cases t2) auto
      with t Cons shown key show ?thesis
        by (simp add: handleEnhance_def messageOr_def)
    qed
  qed
  show ?thesis
  proof (cases "\<exists>p0 base64Data. split CHR '','' shown = [p0, base64Data]")
    case False
    then show ?thesis using bad by simp
  next
    case True
    then obtain p0 base64Data where sp: "split CHR '','' shown = [p0, base64Data]"
      by blast
    obtain res reqs where call:
      "enhanceImage (service e) base64Data (dataUrlMimeType p0) (apiKey a) = (res, reqs)"
      by (cases "enhanceImage (service e) base64Data (dataUrlMimeType p0) (apiKey a)")
    show ?thesis
    proof (cases res)
      case (Inl x)
      with call sp shown key show ?thesis
        by (simp add: handleEnhance_def)
    next
      case (Inr r)
      with call sp shown key store have "error (fst (handleEnhance e (a, w))) = None"
        by (simp add: handleEnhance_def updateHistory_def Let_def
            split: option.splits list.splits)
      with err show ?thesis by simp
    qed
  qed
qed

lemma handleEnhance_error_frame:
  assumes "setItemThrows e = None" and "error (fst (handleEnhance e (a, w))) \<noteq> None"
  shows "history (fst (handleEnhance e (a, w))) = history a
       \<and> storedHistory (snd (handleEnhance e (a, w))) = storedHistory w
       \<and> generatedImage (fst (handleEnhance e (a, w))) = generatedImage a
       \<and> (\<not> truthy (generatedImage a) \<or> apiKey a = [] \<longrightarrow>
            handleEnhance e (a, w)
              = (a\<lparr>error := Some (if \<not> truthy (generatedImage a) then MsgNothingToEnhance
                                     else MsgEnterApiKey)\<rparr>, w))
       \<and> (truthy (generatedImage a) \<and> apiKey a \<noteq> [] \<longrightarrow>
            fst (handleEnhance e (a, w))
              = a\<lparr>isEnhancing := False, error := error (fst (handleEnhance e (a, w))),
                  generatedText := None\<rparr>)"
proof (cases "\<not> truthy (generatedImage a) \<or> apiKey a = []")
  case True
  from handleEnhance_rejected [OF True, of e w] True show ?thesis
    by auto
next
  case False
  then obtain shown where shown: "generatedImage a = Some shown" "shown \<noteq> []"
    and key: "apiKey a \<noteq> []"
    by (auto simp: truthy_def split: option.splits)
  note st = handleEnhance_started_error [OF assms(1) shown key assms(2)]
  have "history (fst (handleEnhance e (a, w))) = history a"
    by (subst conjunct1 [OF st]) simp
  moreover have "generatedImage (fst (handleEnhance e (a, w))) = generatedImage a"
    by (subst conjunct1 [OF st]) simp
  ultimately show ?thesis using st False by simp
qed

lemma handleImageUpload_error_frame:
  assumes "error (handleImageUpload e f a) \<noteq> None"
  shows "handleImageUpload e f a
           = a\<lparr>error := error (handleImageUpload e f a), generatedImage := None,
               generatedText := None,
               imagePreview := Some (createObjectURL (page e) f)\<rparr>"
  using assms by (auto simp: handleImageUpload_def Let_def split: sum.splits)

lemma handleGenerateInitial_rejected:
  "initialPrompt a = [] \<or> apiKey a = [] \<Longrightarrow>
   handleGenerateInitial e (a, w)
     = (a\<lparr>error := Some (if initialPrompt a = [] then MsgEnterDescription
                            else MsgEnterApiKey)\<rparr>, w)"
  by (auto simp: handleGenerateInitial_def)

lemma handleGenerateInitial_started_error:
  assumes "initialPrompt a \<noteq> []" "apiKey a \<noteq> []"
    and "error (fst (handleGenerateInitial e (a, w))) \<noteq> None"
  shows "fst (handleGenerateInitial e (a, w))
           = a\<lparr>isGeneratingInitial := False,
               error := error (fst (handleGenerateInitial e (a, w))),
               generatedImage := None, generatedText := None,
               imagePreview := imagePreview (fst (handleGenerateInitial e (a, w))),
               base64Image := None,
               sourceMode := sourceMode (fst (handleGenerateInitial e (a, w)))\<rparr>
       \<and> storedHistory (snd (handleGenerateInitial e (a, w))) = storedHistory w"
  using assms
  by (auto simp: handleGenerateInitial_def handleImageUpload_def Let_def
      split: sum.splits prod.splits promise.splits)


text \<open>
  When the write of the store throws, the error is reported although the call succeeded,
  and the new entry is already in the list: the frame property below needs its
  assumption.
\<close>

lemma handleGenerate_store_failure:
  "history (fst (handleGenerate (answeringEnv\<lparr>setItemThrows := Some (ErrorObj (Foreign ''quota''))\<rparr>)
                  (sampleApp, sampleWorld)))
     = \<lparr> itemId = 1800000000000, itemPrompt = ''sunset'', templateImageBase64 = ''T0xE'',
         templateImageMimeType = ''image/png'',
         generatedImageUrl = ''data:image/png;base64,TkVX'' \<rparr> # [sampleItem, olderItem]
   \<and> error (fst (handleGenerate (answeringEnv\<lparr>setItemThrows := Some (ErrorObj (Foreign ''quota''))\<rparr>)
                  (sampleApp, sampleWorld)))
     = Some (Foreign ''quota'')"
  using answering_generatePanorama [of "''key''" "''T0xE''" "''image/png''" "''sunset''"]
  by (simp add: handleGenerate_def updateHistory_def sampleApp_def answeringEnv_def
      messageOr_def Let_def)

text \<open>
  The two timers a generation starts are never cancelled. After a failed generation the
  status message is empty when the handler returns, and a timer that fires afterwards
  sets it again.
\<close>

lemma failed_generation_timer_overwrites_status:
  "statusMessage (fst (handleGenerate failingEnv (sampleApp, sampleWorld))) = StatusEmpty
   \<and> timers (snd (handleGenerate failingEnv (sampleApp, sampleWorld)))
       = [(1500, StatusAnalysing), (4000, StatusExtending)]
   \<and> statusMessage (timerFires StatusAnalysing
         (fst (handleGenerate failingEnv (sampleApp, sampleWorld)))) = StatusAnalysing"
  using failing_generatePanorama [of "''key''" "''T0xE''" "''image/png''" "''sunset''"]
  by (simp add: handleGenerate_def sampleApp_def sampleWorld_def failingEnv_def timerFires_def)

text \<open>
  Claim C3, as amended. Whenever generate panorama, enhance or source acquisition (by
  generation or by upload) ends with an error and the write of the history store does not
  throw, the history list and the stored history are the ones before. When the
  precondition check rejected the action (generate panorama: template, prompt or
  credential absent; enhance: no displayed image or no credential; source generation: no
  description or no credential), nothing but the error message has changed, so the
  displayed result is as before. When the action passed its check and failed later: a
  generation has cleared the displayed image and text and, when the handler returns, the
  status message is empty, its two status timers still pending; an enhancement has kept
  the displayed image and cleared the descriptive text; a source acquisition, either
  way, has cleared the displayed image and text.
\<close>

theorem failed_operation_frame:
  assumes "setItemThrows e = None"
  shows "(error (fst (handleGenerate e (a, w))) \<noteq> None \<longrightarrow>
            history (fst (handleGenerate e (a, w))) = history a
          \<and> storedHistory (snd (handleGenerate e (a, w))) = storedHistory w
          \<and> (missingInputs a \<noteq> [] \<longrightarrow>
               handleGenerate e (a, w) = (a\<lparr>error := Some MsgGenerateInputsMissing\<rparr>, w))
          \<and> (missingInputs a = [] \<longrightarrow>
               (\<exists>msg. fst (handleGenerate e (a, w))
                         = a\<lparr>isLoading := False, error := Some msg, generatedImage := None,
                             generatedText := None, statusMessage := StatusEmpty\<rparr>)
             \<and> timers (snd (handleGenerate e (a, w)))
                 = timers w @ [(1500, StatusAnalysing), (4000, StatusExtending)]))
       \<and> (error (fst (handleEnhance e (a, w))) \<noteq> None \<longrightarrow>
            history (fst (handleEnhance e (a, w))) = history a
          \<and> storedHistory (snd (handleEnhance e (a, w))) = storedHistory w
          \<and> generatedImage (fst (handleEnhance e (a, w))) = generatedImage a
          \<and> (\<not> truthy (generatedImage a) \<or> apiKey a = [] \<longrightarrow>
               handleEnhance e (a, w)
                 = (a\<lparr>error := Some (if \<not> truthy (generatedImage a) then MsgNothingToEnhance
                                        else MsgEnterApiKey)\<rparr>, w))
          \<and> (truthy (generatedImage a) \<and> apiKey a \<noteq> [] \<longrightarrow>
               (\<exists>msg. fst (handleEnhance e (a, w))
                         = a\<lparr>isEnhancing := False, error := Some msg,
                             generatedText := None\<rparr>)))
       \<and> (error (fst (handleGenerateInitial e (a, w))) \<noteq> None \<longrightarrow>
            history (fst (handleGenerateInitial e (a, w))) = history a
          \<and> storedHistory (snd (handleGenerateInitial e (a, w))) = storedHistory w
          \<and> (initialPrompt a = [] \<or> apiKey a = [] \<longrightarrow>
               handleGenerateInitial e (a, w)
                 = (a\<lparr>error := Some (if initialPrompt a = [] then MsgEnterDescription
                                        else MsgEnterApiKey)\<rparr>, w))
          \<and> (initialPrompt a \<noteq> [] \<and> apiKey a \<noteq> [] \<longrightarrow>
               (\<exists>msg preview mode. fst (handleGenerateInitial e (a, w))
                         = a\<lparr>isGeneratingInitial := False, error := Some msg,
                             generatedImage := None, generatedText := None,
                             imagePreview := preview, base64Image := None,
                             sourceMode := mode\<rparr>)))
       \<and> (error (handleImageUpload e f a) \<noteq> None \<longrightarrow>
            (\<exists>msg. handleImageUpload e f a
                      = a\<lparr>error := Some msg, generatedImage := None, generatedText := None,
                          imagePreview := Some (createObjectURL (page e) f)\<rparr>))"
proof (intro conjI impI)
  assume err: "error (fst (handleGenerate e (a, w))) \<noteq> None"
  note fr = handleGenerate_error_frame [OF assms err]
  from fr show "history (fst (handleGenerate e (a, w))) = history a" by blast
  from fr show "storedHistory (snd (handleGenerate e (a, w))) = storedHistory w" by blast
  {
    assume "missingInputs a \<noteq> []"
    with fr show "handleGenerate e (a, w) = (a\<lparr>error := Some MsgGenerateInputsMissing\<rparr>, w)"
      by blast
  }
  {
    assume ok: "missingInputs a = []"
    from err obtain msg where m: "error (fst (handleGenerate e (a, w))) = Some msg"
      by auto
    from fr ok have "fst (handleGenerate e (a, w))
              = a\<lparr>isLoading := False, error := error (fst (handleGenerate e (a, w))),
                  generatedImage := None, generatedText := None,
                  statusMessage := StatusEmpty\<rparr>"
      by blast
    then show "\<exists>msg. fst (handleGenerate e (a, w))
                         = a\<lparr>isLoading := False, error := Some msg, generatedImage := None,
                             generatedText := None, statusMessage := StatusEmpty\<rparr>"
      unfolding m by blast
    from fr ok show "timers (snd (handleGenerate e (a, w)))
                 = timers w @ [(1500, StatusAnalysing), (4000, StatusExtending)]"
      by blast
  }
next
  assume err: "error (fst (handleEnhance e (a, w))) \<noteq> None"
  note fr = handleEnhance_error_frame [OF assms err]
  from fr show "history (fst (handleEnhance e (a, w))) = history a" by blast
  from fr show "storedHistory (snd (handleEnhance e (a, w))) = storedHistory w" by blast
  from fr show "generatedImage (fst (handleEnhance e (a, w))) = generatedImage a" by blast
  {
    assume "\<not> truthy (generatedImage a) \<or> apiKey a = []"
    then show "handleEnhance e (a, w)
                 = (a\<lparr>error := Some (if \<not> truthy (generatedImage a) then MsgNothingToEnhance
                                        else MsgEnterApiKey)\<rparr>, w)"
      by (rule handleEnhance_rejected)
  }
  {
    assume ok: "truthy (generatedImage a) \<and> apiKey a \<noteq> []"
    from err obtain msg where m: "error (fst (handleEnhance e (a, w))) = Some msg"
      by auto
    from fr ok have "fst (handleEnhance e (a, w))
              = a\<lparr>isEnhancing := False, error := error (fst (handleEnhance e (a, w))),
                  generatedText := None\<rparr>"
      by blast
    then show "\<exists>msg. fst (handleEnhance e (a, w))
                         = a\<lparr>isEnhancing := False, error := Some msg,
                             generatedText := None\<rparr>"
      unfolding m by blast
  }
next
  assume err: "error (fst (handleGenerateInitial e (a, w))) \<noteq> None"
  have rej: "handleGenerateInitial e (a, w)
                 = (a\<lparr>error := Some (if initialPrompt a = [] then MsgEnterDescription
                                        else MsgEnterApiKey)\<rparr>, w)"
    if "initialPrompt a = [] \<or> apiKey a = []"
    using that by (rule handleGenerateInitial_rejected)
  have st: "fst (handleGenerateInitial e (a, w))
           = a\<lparr>isGeneratingInitial := False,
               error := error (fst (handleGenerateInitial e (a, w))),
               generatedImage := None, generatedText := None,
               imagePreview := imagePreview (fst (handleGenerateInitial e (a, w))),
               base64Image := None,
               sourceMode := sourceMode (fst (handleGenerateInitial e (a, w)))\<rparr>
       \<and> storedHistory (snd (handleGenerateInitial e (a, w))) = storedHistory w"
    if "initialPrompt a \<noteq> [] \<and> apiKey a \<noteq> []"
    using that err handleGenerateInitial_started_error [of a e w] by blast
  show "history (fst (handleGenerateInitial e (a, w))) = history a"
  proof (cases "initialPrompt a = [] \<or> apiKey a = []")
    case True
    then show ?thesis by (simp add: rej)
  next
    case False
    then have "initialPrompt a \<noteq> [] \<and> apiKey a \<noteq> []" by simp
    from conjunct1 [OF st [OF this]] show ?thesis
      by (rule ssubst) simp
  qed
  show "storedHistory (snd (handleGenerateInitial e (a, w))) = storedHistory w"
  proof (cases "initialPrompt a = [] \<or> apiKey a = []")
    case True
    then show ?thesis by (simp add: rej)
  next
    case False
    then have "initialPrompt a \<noteq> [] \<and> apiKey a \<noteq> []" by simp
    from st [OF this] show ?thesis by blast
  qed
  {
    assume "initialPrompt a = [] \<or> apiKey a = []"
    then show "handleGenerateInitial e (a, w)
                 = (a\<lparr>error := Some (if initialPrompt a = [] then MsgEnterDescription
                                        else MsgEnterApiKey)\<rparr>, w)"
      by (rule rej)
  }
  {
    assume ok: "initialPrompt a \<noteq> [] \<and> apiKey a \<noteq> []"
    from err obtain msg where m: "error (fst (handleGenerateInitial e (a, w))) = Some msg"
      by auto
    from conjunct1 [OF st [OF ok]]
    show "\<exists>msg preview mode. fst (handleGenerateInitial e (a, w))
                         = a\<lparr>isGeneratingInitial := False, error := Some msg,
                             generatedImage := None, generatedText := None,
                             imagePreview := preview, base64Image := None,
                             sourceMode := mode\<rparr>"
      unfolding m by blast
  }
next
  assume err: "error (handleImageUpload e f a) \<noteq> None"
  then obtain msg where m: "error (handleImageUpload e f a) = Some msg"
    by auto
  from handleImageUpload_error_frame [OF err]
  show "\<exists>msg. handleImageUpload e f a
                      = a\<lparr>error := Some msg, generatedImage := None, generatedText := None,
                          imagePreview := Some (createObjectURL (page e) f)\<rparr>"
    unfolding m by blast
qed


lemma failing_handleGenerate_error:
  "error (fst (handleGenerate failingEnv (sampleApp, sampleWorld))) = Some MsgPanoramaFailed"
  using failing_generatePanorama [of "''key''" "''T0xE''" "''image/png''" "''sunset''"]
  by (simp add: handleGenerate_def sampleApp_def failingEnv_def messageOr_def)

lemma failing_handleEnhance_error:
  "error (fst (handleEnhance failingEnv (sampleApp, sampleWorld))) = Some MsgEnhanceFailed"
  using failing_enhanceImage [of "''key''" "''UkVT''" "''image/png''"] sample_mime
  by (simp add: handleEnhance_def sampleApp_def failingEnv_def messageOr_def)

lemma failing_handleGenerateInitial_error:
  "error (fst (handleGenerateInitial failingEnv (sampleApp, sampleWorld)))
     = Some MsgSourceImageFailedRetry"
  using failing_generateSourceImage [of "''key''" "''a robot''"]
  by (simp add: handleGenerateInitial_def sampleApp_def failingEnv_def messageOr_def)

lemma failing_handleImageUpload_error:
  "error (handleImageUpload failingEnv f sampleApp) = Some MsgImageProcessingFailed"
  by (simp add: handleImageUpload_def createImageTemplate_def failingEnv_def sampleBrowser_def
      messageOr_def)

lemma keyless_errors:
  "error (fst (handleGenerate failingEnv (sampleApp\<lparr>apiKey := []\<rparr>, sampleWorld)))
     = Some MsgGenerateInputsMissing"
  "error (fst (handleEnhance failingEnv (sampleApp\<lparr>apiKey := []\<rparr>, sampleWorld)))
     = Some MsgEnterApiKey"
  "error (fst (handleGenerateInitial failingEnv (sampleApp\<lparr>apiKey := []\<rparr>, sampleWorld)))
     = Some MsgEnterApiKey"
  by (simp_all add: handleGenerate_def handleEnhance_def handleGenerateInitial_def
      sampleApp_def)

lemma sample_inputs:
  "missingInputs sampleApp = []"
  "missingInputs (sampleApp\<lparr>apiKey := []\<rparr>) \<noteq> []"
  "truthy (generatedImage sampleApp)" "apiKey sampleApp \<noteq> []"
  "initialPrompt sampleApp \<noteq> []"
  "apiKey (sampleApp\<lparr>apiKey := []\<rparr>) = []"
  by (simp_all add: missingInputs_def sampleApp_def)

theorem failed_operation_frame_witness:
  "setItemThrows failingEnv = None
   \<and> missingInputs sampleApp = []
   \<and> error (fst (handleGenerate failingEnv (sampleApp, sampleWorld))) \<noteq> None
   \<and> history (fst (handleGenerate failingEnv (sampleApp, sampleWorld))) = history sampleApp
   \<and> generatedImage (fst (handleGenerate failingEnv (sampleApp, sampleWorld))) = None
   \<and> generatedText (fst (handleGenerate failingEnv (sampleApp, sampleWorld))) = None
   \<and> statusMessage (fst (handleGenerate failingEnv (sampleApp, sampleWorld))) = StatusEmpty
   \<and> timers (snd (handleGenerate failingEnv (sampleApp, sampleWorld)))
       = timers sampleWorld @ [(1500, StatusAnalysing), (4000, StatusExtending)]
   \<and> missingInputs (sampleApp\<lparr>apiKey := []\<rparr>) \<noteq> []
   \<and> handleGenerate failingEnv (sampleApp\<lparr>apiKey := []\<rparr>, sampleWorld)
       = (sampleApp\<lparr>apiKey := [], error := Some MsgGenerateInputsMissing\<rparr>, sampleWorld)
   \<and> truthy (generatedImage sampleApp) \<and> apiKey sampleApp \<noteq> []
   \<and> error (fst (handleEnhance failingEnv (sampleApp, sampleWorld))) \<noteq> None
   \<and> history (fst (handleEnhance failingEnv (sampleApp, sampleWorld))) = history sampleApp
   \<and> generatedImage (fst (handleEnhance failingEnv (sampleApp, sampleWorld)))
       = generatedImage sampleApp
   \<and> generatedText (fst (handleEnhance failingEnv (sampleApp, sampleWorld))) = None
   \<and> handleEnhance failingEnv (sampleApp\<lparr>apiKey := []\<rparr>, sampleWorld)
       = (sampleApp\<lparr>apiKey := [], error := Some MsgEnterApiKey\<rparr>, sampleWorld)
   \<and> initialPrompt sampleApp \<noteq> []
   \<and> error (fst (handleGenerateInitial failingEnv (sampleApp, sampleWorld))) \<noteq> None
   \<and> history (fst (handleGenerateInitial failingEnv (sampleApp, sampleWorld))) = history sampleApp
   \<and> generatedImage (fst (handleGenerateInitial failingEnv (sampleApp, sampleWorld))) = None
   \<and> generatedText (fst (handleGenerateInitial failingEnv (sampleApp, sampleWorld))) = None
   \<and> handleGenerateInitial failingEnv (sampleApp\<lparr>apiKey := []\<rparr>, sampleWorld)
       = (sampleApp\<lparr>apiKey := [], error := Some MsgEnterApiKey\<rparr>, sampleWorld)
   \<and> error (handleImageUpload failingEnv
        \<lparr> fileName = ''a.png'', fileType = ''image/png'', fileBytes = ''x'' \<rparr> sampleApp) \<noteq> None
   \<and> generatedImage (handleImageUpload failingEnv
        \<lparr> fileName = ''a.png'', fileType = ''image/png'', fileBytes = ''x'' \<rparr> sampleApp) = None
   \<and> history (handleImageUpload failingEnv
        \<lparr> fileName = ''a.png'', fileType = ''image/png'', fileBytes = ''x'' \<rparr> sampleApp)
       = history sampleApp"
proof -
  have store: "setItemThrows failingEnv = None"
    by (simp add: failingEnv_def)
  note started = failed_operation_frame [OF store, of sampleApp sampleWorld
        "\<lparr> fileName = ''a.png'', fileType = ''image/png'', fileBytes = ''x'' \<rparr>"]
  note rejected = failed_operation_frame [OF store, of "sampleApp\<lparr>apiKey := []\<rparr>" sampleWorld
        "\<lparr> fileName = ''a.png'', fileType = ''image/png'', fileBytes = ''x'' \<rparr>"]
  have initial_rejected: "initialPrompt (sampleApp\<lparr>apiKey := []\<rparr>) \<noteq> []"
    by (simp add: sampleApp_def)
  have shown_rejected: "truthy (generatedImage (sampleApp\<lparr>apiKey := []\<rparr>))"
    by (simp add: sampleApp_def)
  show ?thesis
    using started rejected store sample_inputs keyless_errors initial_rejected shown_rejected
      failing_handleGenerate_error failing_handleEnhance_error
      failing_handleGenerateInitial_error
      failing_handleImageUpload_error
        [of "\<lparr> fileName = ''a.png'', fileType = ''image/png'', fileBytes = ''x'' \<rparr>"]
    by auto
qed

subsection \<open>Reusing a history entry\<close>

text \<open>
  Claim C9. Reusing a history entry sets the displayed prompt, the template payload, the
  template format tag and the displayed result image to the values stored in the entry,
  clears the error and the descriptive text, leaves the history list as it was, and
  touches nothing outside the component: no request is sent and the store is not written.
\<close>

theorem handleReuseItem_restores_entry:
  "prompt (fst (handleReuseItem item (a, w))) = itemPrompt item
   \<and> base64Image (fst (handleReuseItem item (a, w))) = Some (templateImageBase64 item)
   \<and> mimeType (fst (handleReuseItem item (a, w))) = Some (templateImageMimeType item)
   \<and> generatedImage (fst (handleReuseItem item (a, w))) = Some (generatedImageUrl item)
   \<and> generatedText (fst (handleReuseItem item (a, w))) = None
   \<and> error (fst (handleReuseItem item (a, w))) = None
   \<and> history (fst (handleReuseItem item (a, w))) = history a
   \<and> snd (handleReuseItem item (a, w)) = w"
  by (simp add: handleReuseItem_def)

end
